theory Spec2Isabelle
  imports Complex_Main "HOL-Library.Word" "HOL-Library.Char_ord" "HOL-Library.List_Lexorder"
    "HOL-Library.Sublist" "HOL-Library.Multiset"
begin

section \<open>Python values\<close>

text \<open>
  The program is \<^verbatim>\<open>temper.py\<close>. Its dictionaries are maps from key strings to
  values; the values it stores are integers, floats, strings and one list of strings
  (the key \<^verbatim>\<open>devices\<close>). A float is held as the rational it denotes: every float
  the program computes is a quotient of a 16-bit integer by a divisor, or a parsed decimal
  numeral, and the model keeps the exact quotient (Python rounds it to the nearest double).
\<close>

type_synonym byte = "8 word"

datatype pyval = PInt int | PFloat rat | PStr string | PList "string list"

type_synonym info = "string \<rightharpoonup> pyval"

text \<open>The exceptions that the modelled code raises or lets through.\<close>

datatype exn =
    FileNotFoundError
  | OSError
  | RuntimeError string
  | ValueError
  | IndexError
  | KeyError string
  | TypeError
  | AttributeError string

text \<open>
  Indexing a sequence with a Python integer: a negative index counts from the end, and an
  index outside the sequence raises IndexError (here \<open>None\<close>).
\<close>

definition py_index :: "'a list \<Rightarrow> int \<Rightarrow> 'a option" where
  "py_index xs i =
     (if 0 \<le> i \<and> i < int (length xs) then Some (xs ! nat i)
      else if i < 0 \<and> 0 \<le> int (length xs) + i then Some (xs ! nat (int (length xs) + i))
      else None)"

text \<open>\<^verbatim>\<open>str(b, 'latin-1')\<close>: every byte becomes the character of the same code.\<close>

definition latin1 :: "byte list \<Rightarrow> string" where
  "latin1 bs = map (\<lambda>b. char_of (unat b)) bs"

text \<open>
  \<^verbatim>\<open>str.strip()\<close> removes the characters for which \<^verbatim>\<open>str.isspace\<close> holds from both
  ends. Below code point 256 these are 9 to 13, 28 to 32, 133 and 160.
\<close>

definition isspace :: "char \<Rightarrow> bool" where
  "isspace c =
     (let n = (of_char c :: nat)
      in (9 \<le> n \<and> n \<le> 13) \<or> (28 \<le> n \<and> n \<le> 32) \<or> n = 133 \<or> n = 160)"

definition strip :: "string \<Rightarrow> string" where
  "strip s = rev (dropWhile isspace (rev (dropWhile isspace s)))"

text \<open>\<^verbatim>\<open>binascii.b2a_hex\<close> and \<^verbatim>\<open>binascii.hexlify\<close>: two lower-case digits a byte.\<close>

definition hexdigit :: "nat \<Rightarrow> char" where
  "hexdigit n = (''0123456789abcdef'') ! (n mod 16)"

definition b2a_hex :: "byte list \<Rightarrow> string" where
  "b2a_hex bs = concat (map (\<lambda>b. [hexdigit (unat b div 16), hexdigit (unat b mod 16)]) bs)"

text \<open>
  \<^verbatim>\<open>'%s' % b\<close> for a bytes object \<open>b\<close> prints its \<^verbatim>\<open>repr\<close>. For the output of
  \<^verbatim>\<open>hexlify\<close>, which holds hexadecimal digits only, that is the text between
  \<^verbatim>\<open>b'\<close> and \<^verbatim>\<open>'\<close>.
\<close>

definition format_bytes :: "string \<Rightarrow> string" where
  "format_bytes h = ''b'' @ [CHR 0x27] @ h @ [CHR 0x27]"

section \<open>USBRead: the field decoder\<close>

text \<open>
  \<^verbatim>\<open>struct.unpack_from('>h', bytes, offset)[0]\<close>: a negative offset counts from the end;
  \<^verbatim>\<open>struct.error\<close> (here \<open>None\<close>) when fewer than two bytes remain at the offset.
\<close>

definition be16 :: "byte \<Rightarrow> byte \<Rightarrow> int" where
  "be16 hi lo =
     (let u = 256 * uint hi + uint lo in if u < 32768 then u else u - 65536)"

definition unpack_from_h :: "byte list \<Rightarrow> int \<Rightarrow> int option" where
  "unpack_from_h bs offset =
     (let n = int (length bs);
          j = (if offset < 0 then offset + n else offset)
      in if j < 0 \<or> n - j < 2 then None
         else Some (be16 (bs ! nat j) (bs ! nat (j + 1))))"

text \<open>
  \<^verbatim>\<open>_parse_bytes(name, offset, divisor, bytes, info)\<close>. The first \<^verbatim>\<open>try\<close> returns on
  the sentinel and on an IndexError; \<^verbatim>\<open>and\<close> reads the second byte only when the first
  is 0x4e. The second \<^verbatim>\<open>try\<close> returns on \<^verbatim>\<open>struct.error\<close> and on the
  ZeroDivisionError of a zero divisor. The dictionary is updated in place; the model
  returns the updated dictionary.
\<close>

definition store_field :: "string \<Rightarrow> int \<Rightarrow> rat \<Rightarrow> byte list \<Rightarrow> info \<Rightarrow> info" where
  "store_field name offset divisor bytes info =
     (case unpack_from_h bytes offset of
        None \<Rightarrow> info
      | Some v \<Rightarrow> if divisor = 0 then info else info(name \<mapsto> PFloat (of_int v / divisor)))"

definition parse_bytes :: "string \<Rightarrow> int \<Rightarrow> rat \<Rightarrow> byte list \<Rightarrow> info \<Rightarrow> info" where
  "parse_bytes name offset divisor bytes info =
     (case py_index bytes offset of
        None \<Rightarrow> info
      | Some b0 \<Rightarrow>
          if b0 = 0x4e then
            (case py_index bytes (offset + 1) of
               None \<Rightarrow> info
             | Some b1 \<Rightarrow>
                 if b1 = 0x20 then info
                 else store_field name offset divisor bytes info)
          else store_field name offset divisor bytes info)"

section \<open>USBRead: the firmware query\<close>

text \<open>
  A raw-HID device is what it answers: the reply to each 8-byte command written to it is
  the list of frames that \<^verbatim>\<open>os.read(fd, 8)\<close> returns before \<^verbatim>\<open>select\<close> times out. A
  device that has no further reply stays silent. The inner \<^verbatim>\<open>while True\<close> loop
  concatenates the frames of one reply.
\<close>

type_synonym hid_replies = "byte list list list"

definition next_reply :: "hid_replies \<Rightarrow> byte list \<times> hid_replies" where
  "next_reply rs = (case rs of [] \<Rightarrow> ([], []) | r # rest \<Rightarrow> (concat r, rest))"

text \<open>
  \<^verbatim>\<open>_read_hidraw_firmware\<close>: the \<^verbatim>\<open>for i in range(0, 10)\<close> loop, counted down by
  its first argument. An attempt without a byte raises; an attempt with more than 8 bytes
  leaves the loop; when the range is used up the loop ends and the function returns the
  bytes of the last attempt. The third argument is the variable \<^verbatim>\<open>firmware\<close>.
\<close>

fun firmware_loop :: "nat \<Rightarrow> hid_replies \<Rightarrow> byte list \<Rightarrow> (exn + byte list) \<times> hid_replies" where
  "firmware_loop 0 rs firmware = (Inr firmware, rs)"
| "firmware_loop (Suc n) rs firmware =
     (let (fw, rest) = next_reply rs
      in if length fw = 0 then (Inl (RuntimeError ''Cannot read device firmware identifier''), rest)
         else if length fw > 8 then (Inr fw, rest)
         else firmware_loop n rest fw)"

definition read_hidraw_firmware :: "hid_replies \<Rightarrow> (exn + byte list) \<times> hid_replies" where
  "read_hidraw_firmware rs = firmware_loop 10 rs []"



section \<open>USBRead: the raw-HID decoder\<close>

text \<open>
  Lines 198 to 223 of \<^verbatim>\<open>_read_hidraw\<close>: the dictionary built from the firmware reply
  and the data reply. \<^verbatim>\<open>s[:n]\<close> is \<open>take n s\<close>.
\<close>

definition hidraw_info :: "byte list \<Rightarrow> byte list \<Rightarrow> info" where
  "hidraw_info firmware bytes =
     (let fw = strip (latin1 firmware);
          info = [''firmware'' \<mapsto> PStr fw,
                  ''hex_firmware'' \<mapsto> PStr (b2a_hex firmware),
                  ''hex_data'' \<mapsto> PStr (b2a_hex bytes)]
      in if take 10 fw = ''TEMPerF1.4'' then
           parse_bytes ''internal temperature'' 2 256 bytes
             (info(''firmware'' \<mapsto> PStr (take 10 fw)))
         else if take 14 fw = ''TEMPerGold_V3.'' then
           parse_bytes ''internal temperature'' 2 100 bytes
             (info(''firmware'' \<mapsto> PStr (take 15 fw)))
         else if take 12 fw = ''TEMPerX_V3.1'' \<or> take 12 fw = ''TEMPerX_V3.3'' then
           parse_bytes ''external humidity'' 12 100 bytes
             (parse_bytes ''external temperature'' 10 100 bytes
               (parse_bytes ''internal humidity'' 4 100 bytes
                 (parse_bytes ''internal temperature'' 2 100 bytes
                   (info(''firmware'' \<mapsto> PStr (take 12 fw))))))
         else
           info(''error'' \<mapsto>
             PStr (''Unknown firmware '' @ fw @ '': '' @ format_bytes (b2a_hex bytes))))"

text \<open>
  The devices of the host: what \<^verbatim>\<open>os.open\<close> of a raw-HID path and
  \<^verbatim>\<open>serial.Serial\<close> of a serial path give (an exception, or the replies of the device:
  frames for a raw-HID device, the lines that \<^verbatim>\<open>readline\<close> returns for a serial one),
  the directory \<^verbatim>\<open>/sys/bus/usb/devices\<close> and the clock \<^verbatim>\<open>os.times().elapsed\<close>. The
  file tree type is declared here because the record needs it.
\<close>

datatype node = File string | Unreadable | Dir "(string \<times> node) list" | Link node

record world =
  hid_open :: "string \<Rightarrow> exn + hid_replies"
  serial_open :: "string \<Rightarrow> exn + byte list list"
  sysfs :: node
  now :: rat

text \<open>\<^verbatim>\<open>os.path.join(a, b)\<close> for two components.\<close>

definition path_join :: "string \<Rightarrow> string \<Rightarrow> string" where
  "path_join a b =
     (if take 1 b = ''/'' then b
      else if a = [] \<or> last a = CHR ''/'' then a @ b
      else a @ ''/'' @ b)"

text \<open>
  \<^verbatim>\<open>_read_hidraw\<close>: open, firmware query, data query (one more reply, no retry), then the
  dictionary.
\<close>

definition read_hidraw :: "world \<Rightarrow> string \<Rightarrow> exn + info" where
  "read_hidraw w device =
     (case hid_open w (path_join ''/dev'' device) of
        Inl e \<Rightarrow> Inl e
      | Inr rs \<Rightarrow>
          (case read_hidraw_firmware rs of
             (Inl e, rest) \<Rightarrow> Inl e
           | (Inr firmware, rest) \<Rightarrow> Inr (hidraw_info firmware (fst (next_reply rest)))))"

section \<open>Regular expressions\<close>

text \<open>
  The patterns of the program are sequences of single-character classes, each taken once,
  optionally, or repeated greedily, some of them captured as a group, with an optional
  \<^verbatim>\<open>$\<close> at the end. The matcher is the backtracking one of \<^verbatim>\<open>re\<close>: a repetition takes
  the longest run first and gives characters back one at a time until the rest of the
  pattern matches. \<^verbatim>\<open>.\<close> matches every character but the newline.
\<close>

datatype cclass = Lit char | AnyChar | Digit | DigitDot

datatype quant = Once | Optional | Star | Plus

datatype item = Item cclass quant bool | EndAnchor

fun cmatch :: "cclass \<Rightarrow> char \<Rightarrow> bool" where
  "cmatch (Lit a) c = (c = a)"
| "cmatch AnyChar c = (c \<noteq> CHR 0x0A)"
| "cmatch Digit c = (CHR ''0'' \<le> c \<and> c \<le> CHR ''9'')"
| "cmatch DigitDot c = ((CHR ''0'' \<le> c \<and> c \<le> CHR ''9'') \<or> c = CHR ''.'')"

definition run :: "cclass \<Rightarrow> string \<Rightarrow> nat" where
  "run c s = length (takeWhile (cmatch c) s)"

text \<open>
  \<open>greedy k s lo n\<close> tries to take \<open>n\<close>, then \<open>n - 1\<close>, down to \<open>lo\<close> characters of
  \<open>s\<close>, and continues with \<open>k\<close> on what is left; the first success counts.
\<close>

fun greedy :: "(string \<Rightarrow> 'a option) \<Rightarrow> string \<Rightarrow> nat \<Rightarrow> nat \<Rightarrow> (nat \<times> 'a) option" where
  "greedy k s lo 0 = (if lo = 0 then map_option (Pair 0) (k s) else None)"
| "greedy k s lo (Suc n) =
     (if Suc n < lo then None
      else case k (drop (Suc n) s) of
             Some r \<Rightarrow> Some (Suc n, r)
           | None \<Rightarrow> greedy k s lo n)"

primrec match_items :: "item list \<Rightarrow> string \<Rightarrow> (string list \<times> string) option" where
  "match_items [] = (\<lambda>s. Some ([], s))"
| "match_items (it # its) = (\<lambda>s.
     case it of
       EndAnchor \<Rightarrow> if s = [] \<or> s = [CHR 0x0A] then match_items its s else None
     | Item c q g \<Rightarrow>
         (let most = (case q of Once \<Rightarrow> min 1 (run c s) | Optional \<Rightarrow> min 1 (run c s)
                      | Star \<Rightarrow> run c s | Plus \<Rightarrow> run c s);
              least = (case q of Once \<Rightarrow> 1 | Optional \<Rightarrow> 0 | Star \<Rightarrow> 0 | Plus \<Rightarrow> 1)
          in case greedy (match_items its) s least most of
               None \<Rightarrow> None
             | Some (n, caps, rest) \<Rightarrow> Some (if g then take n s # caps else caps, rest)))"

text \<open>\<^verbatim>\<open>re.search\<close>: the match at the leftmost position that has one; the groups.\<close>

fun re_search :: "item list \<Rightarrow> string \<Rightarrow> string list option" where
  "re_search p [] = map_option fst (match_items p [])"
| "re_search p (c # s) =
     (case match_items p (c # s) of
        Some (caps, rest) \<Rightarrow> Some caps
      | None \<Rightarrow> re_search p s)"

text \<open>\<^verbatim>\<open>pattern.match\<close>: the match at position 0 only.\<close>

definition re_match :: "item list \<Rightarrow> string \<Rightarrow> string list option" where
  "re_match p s = map_option fst (match_items p s)"

definition lits :: "string \<Rightarrow> item list" where
  "lits s = map (\<lambda>c. Item (Lit c) Once False) s"

text \<open>\<^verbatim>\<open>m.group(i)\<close>, for \<open>i\<close> from 1.\<close>

definition group :: "string list \<Rightarrow> nat \<Rightarrow> string" where
  "group caps i = (if 0 < i \<and> i \<le> length caps then caps ! (i - 1) else [])"

section \<open>Numerals\<close>

text \<open>
  \<^verbatim>\<open>int(s, base)\<close> for base 10 and 16 on a string without surrounding white space: a
  sign, for base 16 a prefix \<^verbatim>\<open>0x\<close>, then digits, with single underscores between digits
  or after the prefix. ValueError is \<open>None\<close>. Digits are the ASCII ones.
\<close>

definition digit_val :: "char \<Rightarrow> nat" where
  "digit_val c =
     (let n = (of_char c :: nat)
      in if 48 \<le> n \<and> n \<le> 57 then n - 48
         else if 97 \<le> n \<and> n \<le> 122 then n - 87
         else if 65 \<le> n \<and> n \<le> 90 then n - 55
         else 36)"

definition digits_value :: "nat \<Rightarrow> string \<Rightarrow> nat" where
  "digits_value base s = foldl (\<lambda>n c. base * n + digit_val c) 0 s"

fun underscores_ok :: "string \<Rightarrow> bool" where
  "underscores_ok [] = False"
| "underscores_ok [c] = (c \<noteq> CHR ''_'')"
| "underscores_ok (c # d # s) =
     (c \<noteq> CHR ''_'' \<and> (if d = CHR ''_'' then s \<noteq> [] \<and> underscores_ok s
                          else underscores_ok (d # s)))"

definition py_int :: "string \<Rightarrow> nat \<Rightarrow> int option" where
  "py_int s base =
     (let neg = (take 1 s = ''-'');
          s1 = (if take 1 s = ''-'' \<or> take 1 s = ''+'' then drop 1 s else s);
          s2 = (if base = 16 \<and> (take 2 s1 = ''0x'' \<or> take 2 s1 = ''0X'')
                then (if take 1 (drop 2 s1) = ''_'' then drop 3 s1 else drop 2 s1)
                else s1);
          ds = filter (\<lambda>c. c \<noteq> CHR ''_'') s2
      in if underscores_ok s2 \<and> list_all (\<lambda>c. digit_val c < base) ds
         then Some (if neg then - int (digits_value base ds) else int (digits_value base ds))
         else None)"

text \<open>
  \<^verbatim>\<open>float(s)\<close> for a string of digits and dots, which is what the groups of the serial
  patterns capture: at most one dot and at least one digit, else ValueError (\<open>None\<close>).
\<close>

definition py_float :: "string \<Rightarrow> rat option" where
  "py_float s =
     (let ip = takeWhile (cmatch Digit) s;
          r = dropWhile (cmatch Digit) s;
          fp = drop 1 r
      in if (r = [] \<or> take 1 r = ''.'') \<and> list_all (cmatch Digit) fp \<and> (ip \<noteq> [] \<or> fp \<noteq> [])
         then Some (of_nat (digits_value 10 ip) + of_nat (digits_value 10 fp) / 10 ^ length fp)
         else None)"

text \<open>\<^verbatim>\<open>str(n)\<close> of an integer, as an f-string prints it.\<close>

fun str_nat :: "nat \<Rightarrow> string" where
  "str_nat n =
     (if n < 10 then [hexdigit n] else str_nat (n div 10) @ [hexdigit (n mod 10)])"

declare str_nat.simps [simp del]

definition str_int :: "int \<Rightarrow> string" where
  "str_int i = (if i < 0 then ''-'' @ str_nat (nat (- i)) else str_nat (nat i))"

section \<open>USBRead: the serial decoder\<close>

definition temp_inner :: "item list" where
  "temp_inner = lits ''Temp-Inner:'' @
     [Item DigitDot Star True, Item AnyChar Star False, Item (Lit (CHR '','')) Once False,
      Item (Lit (CHR '' '')) Optional False, Item DigitDot Star True]"

definition temp_outer :: "item list" where
  "temp_outer = lits ''Temp-Outer:'' @ [Item DigitDot Star True]"

text \<open>
  Lines 254 to 266 of \<^verbatim>\<open>_read_serial\<close>. A \<^verbatim>\<open>float\<close> that fails on a group of the
  first pattern raises ValueError out of the decoder; on the group of the second pattern
  it is caught and the field is left out.
\<close>

definition serial_info :: "string \<Rightarrow> string \<Rightarrow> exn + info" where
  "serial_info firmware reply =
     (let info = [''firmware'' \<mapsto> PStr firmware];
          inner =
            (case re_search temp_inner reply of
               None \<Rightarrow> Inr info
             | Some m \<Rightarrow>
                 (case py_float (group m 1) of
                    None \<Rightarrow> Inl ValueError
                  | Some t \<Rightarrow>
                      (case py_float (group m 2) of
                         None \<Rightarrow> Inl ValueError
                       | Some h \<Rightarrow>
                           Inr (info(''internal temperature'' \<mapsto> PFloat t,
                                     ''internal humidity'' \<mapsto> PFloat h)))))
      in case inner of
           Inl e \<Rightarrow> Inl e
         | Inr info1 \<Rightarrow>
             (case re_search temp_outer reply of
                None \<Rightarrow> Inr info1
              | Some m \<Rightarrow>
                  (case py_float (group m 1) of
                     None \<Rightarrow> Inr info1
                   | Some t \<Rightarrow> Inr (info1(''external temperature'' \<mapsto> PFloat t)))))"

text \<open>\<^verbatim>\<open>s.readline()\<close>: the next line of the device, or nothing after the timeout.\<close>

definition readline :: "byte list list \<Rightarrow> byte list \<times> byte list list" where
  "readline ls = (case ls of [] \<Rightarrow> ([], []) | l # rest \<Rightarrow> (l, rest))"

definition read_serial :: "world \<Rightarrow> string \<Rightarrow> exn + info" where
  "read_serial w device =
     (case serial_open w (path_join ''/dev'' device) of
        Inl e \<Rightarrow> Inl e
      | Inr ls \<Rightarrow>
          (let (l0, ls0) = readline ls;
               firmware = strip (latin1 l0);
               (l1, ls1) = readline ls0;
               (l2, ls2) = readline ls1;
               reply = strip (latin1 l1) @ strip (latin1 l2)
           in serial_info firmware reply))"

text \<open>
  \<^verbatim>\<open>USBRead(device).read()\<close>. Beside the result the model records which decoder was
  entered, and for which device.
\<close>

datatype call = ReadHidraw string | ReadSerial string

definition usbread_read :: "world \<Rightarrow> string \<Rightarrow> (exn + info) \<times> call list" where
  "usbread_read w device =
     (if take 6 device = ''hidraw'' then (read_hidraw w device, [ReadHidraw device])
      else if take 3 device = ''tty'' then (read_serial w device, [ReadSerial device])
      else (Inr [''error'' \<mapsto> PStr ''No usable hid/tty devices available''], []))"

section \<open>USBList: the scanner\<close>

text \<open>
  The file tree under \<^verbatim>\<open>/sys/bus/usb/devices\<close>: a file that can be read as text, with
  its content; an entry that cannot be read as text (missing target, no permission, a
  decoding error); a directory with its entries in the order \<^verbatim>\<open>os.scandir\<close> yields
  them; a symbolic link with what it resolves to.
\<close>

fun target :: "node \<Rightarrow> node" where
  "target (Link n) = target n"
| "target n = n"

definition is_dir :: "node \<Rightarrow> bool" where
  "is_dir n = (case target n of Dir es \<Rightarrow> True | _ \<Rightarrow> False)"

definition is_symlink :: "node \<Rightarrow> bool" where
  "is_symlink n = (case n of Link t \<Rightarrow> True | _ \<Rightarrow> False)"

definition scandir :: "node \<Rightarrow> (string \<times> node) list" where
  "scandir n = (case target n of Dir es \<Rightarrow> es | _ \<Rightarrow> [])"

text \<open>
  \<^verbatim>\<open>_readfile(os.path.join(dirname, name))\<close>, for the directory \<open>d\<close>: the stripped
  content, or the empty string when the file is not there or cannot be read.
\<close>

definition readfile :: "node \<Rightarrow> string \<Rightarrow> string" where
  "readfile d name =
     (case map_of (scandir d) name of
        None \<Rightarrow> []
      | Some n \<Rightarrow> (case target n of File txt \<Rightarrow> strip txt | _ \<Rightarrow> []))"

definition tty_pattern :: "item list" where
  "tty_pattern = lits ''tty'' @ [Item AnyChar Star False, Item Digit Once False]"

definition hidraw_pattern :: "item list" where
  "hidraw_pattern = lits ''hidraw'' @ [Item Digit Once False]"

text \<open>
  \<^verbatim>\<open>_find_devices\<close>, on the entries of the directory: it descends into the entries that
  are directories and not symbolic links, and tests the name of every entry.
\<close>

fun find_devices :: "(string \<times> node) list \<Rightarrow> string set" where
  "find_devices [] = {}"
| "find_devices ((name, n) # es) =
     (case n of Dir sub \<Rightarrow> find_devices sub | _ \<Rightarrow> {})
     \<union> (if re_search tty_pattern name \<noteq> None then {name} else {})
     \<union> (if re_search hidraw_pattern name \<noteq> None then {name} else {})
     \<union> find_devices es"

text \<open>
  \<^verbatim>\<open>_get_usb_device\<close>: \<open>Inr None\<close> is the \<^verbatim>\<open>None\<close> of a directory without a vendor
  id; \<open>Inl ValueError\<close> is what \<^verbatim>\<open>int\<close> raises on a string that is no numeral, the
  empty string included.
\<close>

definition get_usb_device :: "node \<Rightarrow> exn + info option" where
  "get_usb_device d =
     (let vendorid = readfile d ''idVendor''
      in if vendorid = [] then Inr None
         else case py_int vendorid 16 of
           None \<Rightarrow> Inl ValueError
         | Some v \<Rightarrow>
             (case py_int (readfile d ''idProduct'') 16 of
                None \<Rightarrow> Inl ValueError
              | Some p \<Rightarrow>
                  (case py_int (readfile d ''busnum'') 10 of
                     None \<Rightarrow> Inl ValueError
                   | Some b \<Rightarrow>
                       (case py_int (readfile d ''devnum'') 10 of
                          None \<Rightarrow> Inl ValueError
                        | Some n \<Rightarrow>
                            Inr (Some
                              [''vendorid'' \<mapsto> PInt v,
                               ''productid'' \<mapsto> PInt p,
                               ''manufacturer'' \<mapsto> PStr (readfile d ''manufacturer''),
                               ''product'' \<mapsto> PStr (readfile d ''product''),
                               ''busnum'' \<mapsto> PInt b,
                               ''devnum'' \<mapsto> PInt n,
                               ''devices'' \<mapsto>
                                 PList (sorted_list_of_set (find_devices (scandir d)))])))))"

text \<open>
  A Python dictionary keeps its keys in insertion order, and assigning to a key that is
  there keeps its place: an association list with \<open>dict_set\<close>.
\<close>

type_synonym registry = "(string \<times> info) list"

fun dict_set :: "string \<Rightarrow> 'v \<Rightarrow> (string \<times> 'v) list \<Rightarrow> (string \<times> 'v) list" where
  "dict_set k v [] = [(k, v)]"
| "dict_set k v ((k', v') # r) = (if k = k' then (k, v) # r else (k', v') # dict_set k v r)"

definition SYSPATH :: string where
  "SYSPATH = ''/sys/bus/usb/devices''"

text \<open>\<^verbatim>\<open>get_usb_devices\<close>: the loop over the entries, with the dictionary so far.\<close>

fun get_usb_devices_loop :: "(string \<times> node) list \<Rightarrow> registry \<Rightarrow> exn + registry" where
  "get_usb_devices_loop [] info = Inr info"
| "get_usb_devices_loop ((name, n) # es) info =
     (if is_dir n then
        (case get_usb_device n of
           Inl e \<Rightarrow> Inl e
         | Inr None \<Rightarrow> get_usb_devices_loop es info
         | Inr (Some device) \<Rightarrow>
             get_usb_devices_loop es (dict_set (path_join SYSPATH name) device info))
      else get_usb_devices_loop es info)"

definition get_usb_devices :: "node \<Rightarrow> exn + registry" where
  "get_usb_devices sysdir = get_usb_devices_loop (scandir sysdir) []"

section \<open>Temper: the registry and the acquisition\<close>

text \<open>
  The attributes of a \<^verbatim>\<open>Temper\<close> object that the modelled methods use. The registry
  \<^verbatim>\<open>usb_devices\<close> maps a device path to the dictionary the scanner built for it.
\<close>

record temper =
  forced_vendor_id :: "int option"
  forced_product_id :: "int option"
  usb_devices :: registry
  last_reset :: rat

text \<open>
  \<^verbatim>\<open>reset\<close>: a scan that raises leaves the object as it was, because the assignment to
  \<^verbatim>\<open>self.usb_devices\<close> comes after the scan.
\<close>

definition reset :: "world \<Rightarrow> temper \<Rightarrow> exn + temper" where
  "reset w t =
     (case get_usb_devices (sysfs w) of
        Inl e \<Rightarrow> Inl e
      | Inr devs \<Rightarrow> Inr (t\<lparr>usb_devices := devs, last_reset := now w\<rparr>))"

definition maybe_reset :: "world \<Rightarrow> temper \<Rightarrow> exn + temper" where
  "maybe_reset w t = (if now w - last_reset t > 60 then reset w t else Inr t)"

definition is_known_id :: "temper \<Rightarrow> int \<Rightarrow> int \<Rightarrow> bool" where
  "is_known_id t vendorid productid =
     (if forced_vendor_id t \<noteq> None \<and> forced_product_id t \<noteq> None then
        (if forced_vendor_id t = Some vendorid \<and> forced_product_id t = Some productid
         then True else False)
      else if vendorid = 0x0c45 \<and> productid = 0x7401 then True
      else if vendorid = 0x413d \<and> productid = 0x2107 then True
      else if vendorid = 0x1a86 \<and> productid = 0x5523 then True
      else if vendorid = 0x1a86 \<and> productid = 0xe025 then True
      else False)"

text \<open>
  \<^verbatim>\<open>info[key]\<close> where the code goes on with an integer, and where it goes on with a
  list. A missing key raises KeyError. The scanner stores integers under \<^verbatim>\<open>vendorid\<close>,
  \<^verbatim>\<open>productid\<close>, \<^verbatim>\<open>busnum\<close> and \<^verbatim>\<open>devnum\<close> and a list under \<^verbatim>\<open>devices\<close>; for a
  value of another kind, which the program never stores there, the model answers
  TypeError.
\<close>

definition get_int :: "info \<Rightarrow> string \<Rightarrow> exn + int" where
  "get_int info k =
     (case info k of
        None \<Rightarrow> Inl (KeyError k)
      | Some (PInt n) \<Rightarrow> Inr n
      | Some _ \<Rightarrow> Inl TypeError)"

definition get_list :: "info \<Rightarrow> string \<Rightarrow> exn + string list" where
  "get_list info k =
     (case info k of
        None \<Rightarrow> Inl (KeyError k)
      | Some (PList l) \<Rightarrow> Inr l
      | Some _ \<Rightarrow> Inl TypeError)"

text \<open>
  \<^verbatim>\<open>sorted(self.usb_devices.items(), key=lambda x: x[1]['busnum'] * 1000 + x[1]['devnum'])\<close>:
  the keys of all items are computed first, then the items are sorted by them; the sort
  is stable, as \<open>sort_key\<close> is.
\<close>

definition order_key :: "info \<Rightarrow> exn + int" where
  "order_key info =
     (case get_int info ''busnum'' of
        Inl e \<Rightarrow> Inl e
      | Inr b \<Rightarrow> (case get_int info ''devnum'' of Inl e \<Rightarrow> Inl e | Inr d \<Rightarrow> Inr (b * 1000 + d)))"

fun keyed_items :: "registry \<Rightarrow> exn + (int \<times> string \<times> info) list" where
  "keyed_items [] = Inr []"
| "keyed_items ((path, info) # r) =
     (case order_key info of
        Inl e \<Rightarrow> Inl e
      | Inr k \<Rightarrow> (case keyed_items r of Inl e \<Rightarrow> Inl e | Inr ks \<Rightarrow> Inr ((k, path, info) # ks)))"

definition sorted_items :: "registry \<Rightarrow> exn + registry" where
  "sorted_items reg =
     (case keyed_items reg of Inl e \<Rightarrow> Inl e | Inr ks \<Rightarrow> Inr (map snd (sort_key fst ks)))"

text \<open>
  The loop of \<^verbatim>\<open>Temper.read\<close> over the sorted items. \<^verbatim>\<open>info\<close> is the dictionary object
  that the registry holds, so \<^verbatim>\<open>info['error'] = ...\<close> changes the registry entry: the
  model writes the changed dictionary back under its path. The state is the object, the
  list \<^verbatim>\<open>results\<close> and the decoder calls made so far.
\<close>

fun read_loop ::
  "world \<Rightarrow> registry \<Rightarrow> temper \<Rightarrow> info list \<Rightarrow> call list
     \<Rightarrow> (exn + info list) \<times> temper \<times> call list" where
  "read_loop w [] t results calls = (Inr results, t, calls)"
| "read_loop w ((path, info) # rest) t results calls =
     (case get_int info ''vendorid'' of
        Inl e \<Rightarrow> (Inl e, t, calls)
      | Inr v \<Rightarrow>
      (case get_int info ''productid'' of
        Inl e \<Rightarrow> (Inl e, t, calls)
      | Inr p \<Rightarrow>
          if \<not> is_known_id t v p then read_loop w rest t results calls
          else
            (case get_list info ''devices'' of
               Inl e \<Rightarrow> (Inl e, t, calls)
             | Inr devs \<Rightarrow>
                 if length devs = 0 then
                   (let info' = info(''error'' \<mapsto> PStr ''no hid/tty devices available'')
                    in read_loop w rest
                         (t\<lparr>usb_devices := dict_set path info' (usb_devices t)\<rparr>)
                         (results @ [info']) calls)
                 else
                   (case py_index devs (- 1) of
                      None \<Rightarrow> (Inl IndexError, t, calls)
                    | Some device \<Rightarrow>
                        (case usbread_read w device of
                           (Inl e, cs) \<Rightarrow> (Inl e, t, calls @ cs)
                         | (Inr reading, cs) \<Rightarrow>
                             read_loop w rest t (results @ [info ++ reading]) (calls @ cs))))))"

definition temper_read :: "world \<Rightarrow> temper \<Rightarrow> (exn + info list) \<times> temper \<times> call list" where
  "temper_read w t =
     (case sorted_items (usb_devices t) of
        Inl e \<Rightarrow> (Inl e, t, [])
      | Inr items \<Rightarrow> read_loop w items t [] [])"

section \<open>RequestHandler: the service\<close>

text \<open>
  What the handler closes over: \<^verbatim>\<open>protocol\<close> and the \<^verbatim>\<open>hostname\<close> and \<^verbatim>\<open>port\<close> of
  \<^verbatim>\<open>server_config\<close>. A reply is the status with the object that \<^verbatim>\<open>json.dumps\<close>
  gets: a list of dictionaries or one dictionary.
\<close>

record server_config =
  protocol :: string
  hostname :: string
  port :: int

datatype mode = GET | HEAD

datatype body = BList "info list" | BDict info

definition filter_keys :: "string list" where
  "filter_keys = [''vendorid'', ''productid'', ''manufacturer'', ''product'',
     ''internal temperature'', ''internal humidity'',
     ''external temperature'', ''external humidity'']"

definition url_of :: "server_config \<Rightarrow> info \<Rightarrow> exn + string" where
  "url_of cfg info =
     (case get_int info ''vendorid'' of
        Inl e \<Rightarrow> Inl e
      | Inr v \<Rightarrow>
          (case get_int info ''productid'' of
             Inl e \<Rightarrow> Inl e
           | Inr p \<Rightarrow>
               Inr (protocol cfg @ ''://'' @ hostname cfg @ '':'' @ str_int (port cfg)
                    @ ''/'' @ str_int v @ ''/'' @ str_int p)))"

text \<open>\<^verbatim>\<open>filter\<close>: the loop over the keys; the URL is set in every round.\<close>

fun filter_loop :: "server_config \<Rightarrow> info \<Rightarrow> string list \<Rightarrow> info \<Rightarrow> exn + info" where
  "filter_loop cfg info [] filtered = Inr filtered"
| "filter_loop cfg info (k # ks) filtered =
     (let filtered1 = (case info k of Some v \<Rightarrow> filtered(k \<mapsto> v) | None \<Rightarrow> filtered)
      in case url_of cfg info of
           Inl e \<Rightarrow> Inl e
         | Inr u \<Rightarrow> filter_loop cfg info ks (filtered1(''url'' \<mapsto> PStr u)))"

definition filter_info :: "server_config \<Rightarrow> info \<Rightarrow> exn + info" where
  "filter_info cfg info = filter_loop cfg info filter_keys Map.empty"

text \<open>\<^verbatim>\<open>[rqh.filter(data) for data in ...]\<close>.\<close>

fun filter_all :: "server_config \<Rightarrow> info list \<Rightarrow> exn + info list" where
  "filter_all cfg [] = Inr []"
| "filter_all cfg (d # ds) =
     (case filter_info cfg d of
        Inl e \<Rightarrow> Inl e
      | Inr f \<Rightarrow> (case filter_all cfg ds of Inl e \<Rightarrow> Inl e | Inr fs \<Rightarrow> Inr (f # fs)))"

text \<open>
  \<^verbatim>\<open>self.force_reset()\<close>, for \<^verbatim>\<open>self\<close> the \<^verbatim>\<open>Temper\<close> object. The class defines
  \<^verbatim>\<open>reset\<close> and \<^verbatim>\<open>maybe_reset\<close>; the name \<^verbatim>\<open>force_reset\<close> is neither a method of the
  class nor an attribute that any method assigns, so looking it up raises AttributeError
  before anything is called.
\<close>

definition temper_attributes :: "string list" where
  "temper_attributes =
     [''SYSPATH'', ''__init__'', ''reset'', ''_is_known_id'', ''list'', ''read'',
      ''_add_temperature'', ''_add_humidity'', ''print'', ''maybe_reset'', ''webserver'',
      ''main'', ''forced_vendor_id'', ''forced_product_id'', ''verbose'', ''usb_devices'',
      ''last_reset'', ''lock'']"

definition force_reset :: "world \<Rightarrow> temper \<Rightarrow> exn + temper" where
  "force_reset w t = Inl (AttributeError ''force_reset'')"

text \<open>
  \<^verbatim>\<open>get_all\<close>. The result is the reply or the exception that leaves the handler, the
  object afterwards, and the decoder calls made.
\<close>

definition read_filtered :: "server_config \<Rightarrow> world \<Rightarrow> temper \<Rightarrow> (exn + info list) \<times> temper \<times> call list" where
  "read_filtered cfg w t =
     (case temper_read w t of
        (Inl e, t', calls) \<Rightarrow> (Inl e, t', calls)
      | (Inr data, t', calls) \<Rightarrow> (filter_all cfg data, t', calls))"

definition get_all ::
  "server_config \<Rightarrow> world \<Rightarrow> temper \<Rightarrow> mode \<Rightarrow> (exn + nat \<times> body) \<times> temper \<times> call list" where
  "get_all cfg w t m =
     (case maybe_reset w t of
        Inl e \<Rightarrow> (Inl e, t, [])
      | Inr t1 \<Rightarrow>
          if m = HEAD then (Inr (200, BList []), t1, [])
          else
            (case read_filtered cfg w t1 of
               (Inr results, t2, calls) \<Rightarrow> (Inr (200, BList results), t2, calls)
             | (Inl e, t2, calls) \<Rightarrow>
                 if e \<noteq> FileNotFoundError then (Inl e, t2, calls)
                 else
                   (case force_reset w t2 of
                      Inl e' \<Rightarrow> (Inl e', t2, calls)
                    | Inr t3 \<Rightarrow>
                        (case read_filtered cfg w t3 of
                           (Inl e', t4, calls') \<Rightarrow> (Inl e', t4, calls @ calls')
                         | (Inr results, t4, calls') \<Rightarrow>
                             (Inr (200, BList results), t4, calls @ calls')))))"

text \<open>
  \<^verbatim>\<open>get_device\<close>: the loop over \<^verbatim>\<open>self.usb_devices.items()\<close>; \<open>Inr None\<close> when the
  loop ends without a \<^verbatim>\<open>return\<close>.
\<close>

fun get_device_loop ::
  "server_config \<Rightarrow> world \<Rightarrow> temper \<Rightarrow> mode \<Rightarrow> int \<Rightarrow> int \<Rightarrow> registry
     \<Rightarrow> (exn + (nat \<times> body) option) \<times> call list" where
  "get_device_loop cfg w t m vendorid productid [] = (Inr None, [])"
| "get_device_loop cfg w t m vendorid productid ((path, info) # rest) =
     (case get_int info ''vendorid'' of
        Inl e \<Rightarrow> (Inl e, [])
      | Inr v \<Rightarrow>
      (case get_int info ''productid'' of
        Inl e \<Rightarrow> (Inl e, [])
      | Inr p \<Rightarrow>
          if \<not> is_known_id t v p then get_device_loop cfg w t m vendorid productid rest
          else if vendorid = v \<and> productid = p then
            (if m = HEAD then (Inr (Some (200, BDict Map.empty)), [])
             else
               (case get_list info ''devices'' of
                  Inl e \<Rightarrow> (Inl e, [])
                | Inr devs \<Rightarrow>
                    (case py_index devs (- 1) of
                       None \<Rightarrow> (Inl IndexError, [])
                     | Some device \<Rightarrow>
                         (case usbread_read w device of
                            (Inl e, cs) \<Rightarrow> (Inl e, cs)
                          | (Inr reading, cs) \<Rightarrow>
                              (case filter_info cfg (info ++ reading) of
                                 Inl e \<Rightarrow> (Inl e, cs)
                               | Inr f \<Rightarrow> (Inr (Some (200, BDict f)), cs))))))
          else get_device_loop cfg w t m vendorid productid rest))"

text \<open>
  \<^verbatim>\<open>get_device(mode, match)\<close>, with the two groups of the match. Only FileNotFoundError
  is caught; it and the end of the loop lead to \<^verbatim>\<open>maybe_reset\<close> and the 404 reply.
\<close>

definition no_such_device ::
  "world \<Rightarrow> temper \<Rightarrow> call list \<Rightarrow> (exn + nat \<times> body) \<times> temper \<times> call list" where
  "no_such_device w t cs =
     (case maybe_reset w t of
        Inl e \<Rightarrow> (Inl e, t, cs)
      | Inr t1 \<Rightarrow> (Inr (404, BDict [''error'' \<mapsto> PStr ''no such device'']), t1, cs))"

definition get_device ::
  "server_config \<Rightarrow> world \<Rightarrow> temper \<Rightarrow> mode \<Rightarrow> string list
     \<Rightarrow> (exn + nat \<times> body) \<times> temper \<times> call list" where
  "get_device cfg w t m groups =
     (case py_int (group groups 1) 10 of
        None \<Rightarrow> (Inl ValueError, t, [])
      | Some vendorid \<Rightarrow>
      (case py_int (group groups 2) 10 of
        None \<Rightarrow> (Inl ValueError, t, [])
      | Some productid \<Rightarrow>
          (case get_device_loop cfg w t m vendorid productid (usb_devices t) of
             (Inr (Some reply), cs) \<Rightarrow> (Inr reply, t, cs)
           | (Inr None, cs) \<Rightarrow> no_such_device w t cs
           | (Inl e, cs) \<Rightarrow>
               if e = FileNotFoundError then no_such_device w t cs else (Inl e, t, cs))))"

text \<open>\<^verbatim>\<open>get_devices\<close>: the identities of the known devices, without a reading.\<close>

fun get_devices_loop :: "server_config \<Rightarrow> temper \<Rightarrow> registry \<Rightarrow> exn + info list" where
  "get_devices_loop cfg t [] = Inr []"
| "get_devices_loop cfg t ((path, info) # rest) =
     (case get_int info ''vendorid'' of
        Inl e \<Rightarrow> Inl e
      | Inr v \<Rightarrow>
      (case get_int info ''productid'' of
        Inl e \<Rightarrow> Inl e
      | Inr p \<Rightarrow>
          if \<not> is_known_id t v p then get_devices_loop cfg t rest
          else
            (case filter_info cfg info of
               Inl e \<Rightarrow> Inl e
             | Inr f \<Rightarrow>
                 (case get_devices_loop cfg t rest of
                    Inl e \<Rightarrow> Inl e
                  | Inr fs \<Rightarrow> Inr (f # fs)))))"

definition get_devices ::
  "server_config \<Rightarrow> world \<Rightarrow> temper \<Rightarrow> mode \<Rightarrow> (exn + nat \<times> body) \<times> temper \<times> call list" where
  "get_devices cfg w t m =
     (case maybe_reset w t of
        Inl e \<Rightarrow> (Inl e, t, [])
      | Inr t1 \<Rightarrow>
          (case get_devices_loop cfg t1 (usb_devices t1) of
             Inl e \<Rightarrow> (Inl e, t1, [])
           | Inr results \<Rightarrow> (Inr (200, BList results), t1, [])))"

text \<open>
  \<^verbatim>\<open>get_path\<close>, with \<^verbatim>\<open>path_pattern = re.compile('^/([0-9]+)/([0-9]+)$')\<close>;
  \<^verbatim>\<open>match\<close> starts at the beginning of the path, so the \<^verbatim>\<open>^\<close> adds nothing.
\<close>

definition path_pattern :: "item list" where
  "path_pattern =
     [Item (Lit (CHR ''/'')) Once False, Item Digit Plus True,
      Item (Lit (CHR ''/'')) Once False, Item Digit Plus True, EndAnchor]"

definition get_path ::
  "server_config \<Rightarrow> world \<Rightarrow> temper \<Rightarrow> mode \<Rightarrow> string
     \<Rightarrow> (exn + nat \<times> body) \<times> temper \<times> call list" where
  "get_path cfg w t m path =
     (case re_match path_pattern path of
        Some groups \<Rightarrow> get_device cfg w t m groups
      | None \<Rightarrow>
          if path = ''/devices'' then get_devices cfg w t m
          else if path = ''/'' then get_all cfg w t m
          else (Inr (404, BDict [''error'' \<mapsto> PStr ''unrecognized path'']), t, []))"

section \<open>The field rule in the words of the specification\<close>


section \<open>Registry entries as the scanner builds them\<close>

text \<open>
  The dictionaries that \<^verbatim>\<open>_get_usb_device\<close> returns hold integers under \<^verbatim>\<open>vendorid\<close>,
  \<^verbatim>\<open>productid\<close>, \<^verbatim>\<open>busnum\<close> and \<^verbatim>\<open>devnum\<close> and a list under \<^verbatim>\<open>devices\<close>. For
  such an entry: the integer under a key, the candidate interfaces, whether its id is a
  known one, and its place in the report order.
\<close>

definition scanner_entry :: "info \<Rightarrow> bool" where
  "scanner_entry i =
     ((\<forall>k \<in> set [''vendorid'', ''productid'', ''busnum'', ''devnum''].
         case i k of Some (PInt n) \<Rightarrow> True | _ \<Rightarrow> False)
      \<and> (case i ''devices'' of Some (PList l) \<Rightarrow> True | _ \<Rightarrow> False))"

definition entry_int :: "info \<Rightarrow> string \<Rightarrow> int" where
  "entry_int i k = (case i k of Some (PInt n) \<Rightarrow> n | _ \<Rightarrow> 0)"

definition entry_devices :: "info \<Rightarrow> string list" where
  "entry_devices i = (case i ''devices'' of Some (PList l) \<Rightarrow> l | _ \<Rightarrow> [])"

definition known_entry :: "temper \<Rightarrow> info \<Rightarrow> bool" where
  "known_entry t i = is_known_id t (entry_int i ''vendorid'') (entry_int i ''productid'')"

definition rank :: "info \<Rightarrow> int" where
  "rank i = entry_int i ''busnum'' * 1000 + entry_int i ''devnum''"


section \<open>Example inputs\<close>

text \<open>
  Inputs for the concrete instances below: a registry entry with the id 0c45:7401 and
  given candidate interfaces, a \<^verbatim>\<open>Temper\<close> object without forced ids holding a given
  registry, a host where every device node has vanished, and a service configuration.
\<close>

definition example_entry :: "string list \<Rightarrow> info" where
  "example_entry devs =
     [''vendorid'' \<mapsto> PInt 0x0c45, ''productid'' \<mapsto> PInt 0x7401,
      ''manufacturer'' \<mapsto> PStr ''RDing'', ''product'' \<mapsto> PStr ''TEMPerV1.4'',
      ''busnum'' \<mapsto> PInt 1, ''devnum'' \<mapsto> PInt 2, ''devices'' \<mapsto> PList devs]"

definition example_temper :: "registry \<Rightarrow> temper" where
  "example_temper reg =
     \<lparr>forced_vendor_id = None, forced_product_id = None, usb_devices = reg, last_reset = 0\<rparr>"

definition vanished :: world where
  "vanished =
     \<lparr>hid_open = (\<lambda>path. Inl FileNotFoundError),
      serial_open = (\<lambda>path. Inl FileNotFoundError),
      sysfs = Dir [], now = 0\<rparr>"

definition example_config :: server_config where
  "example_config = \<lparr>protocol = ''http'', hostname = ''localhost'', port = 80\<rparr>"

section \<open>The names the scanner collects, in the words of the specification\<close>

text \<open>
  The entry names found anywhere in the subtree of a directory, where the subtree is made
  of the directories that are not symbolic links.
\<close>

fun subtree_names :: "(string \<times> node) list \<Rightarrow> string set" where
  "subtree_names [] = {}"
| "subtree_names ((name, n) # es) =
     {name} \<union> (case n of Dir sub \<Rightarrow> subtree_names sub | _ \<Rightarrow> {}) \<union> subtree_names es"

text \<open>
  The shape of the claim: the word followed by digits and nothing else. The shapes of the
  code: "tty", then any characters but a newline, then a digit, anywhere in the name;
  "hidraw" and then a digit, anywhere in the name.
\<close>

definition word_digits :: "string \<Rightarrow> string \<Rightarrow> bool" where
  "word_digits word name =
     (take (length word) name = word \<and> drop (length word) name \<noteq> []
      \<and> list_all (cmatch Digit) (drop (length word) name))"

definition tty_shape :: "string \<Rightarrow> bool" where
  "tty_shape name =
     (\<exists>a b d c. name = a @ ''tty'' @ b @ d # c \<and> CHR 0x0A \<notin> set b \<and> cmatch Digit d)"

definition hidraw_shape :: "string \<Rightarrow> bool" where
  "hidraw_shape name = (\<exists>a d c. name = a @ ''hidraw'' @ d # c \<and> cmatch Digit d)"

section \<open>The acquisition in the words of the specification\<close>

text \<open>
  The report order (ascending \<open>busnum * 1000 + devnum\<close>, ties in registry order), the
  entries that are acquired, and for one entry: what the decoder answers on its last
  candidate interface, the merged result, and the decoder calls it causes.
\<close>

definition no_interface_error :: pyval where
  "no_interface_error = PStr ''no hid/tty devices available''"

definition report_order :: "registry \<Rightarrow> registry" where
  "report_order reg = sort_key (\<lambda>e. rank (snd e)) reg"

definition acquired :: "temper \<Rightarrow> registry \<Rightarrow> info list" where
  "acquired t reg = map snd (filter (\<lambda>e. known_entry t (snd e)) (report_order reg))"

definition decoded :: "world \<Rightarrow> info \<Rightarrow> exn + info" where
  "decoded w i = fst (usbread_read w (last (entry_devices i)))"

definition merged :: "world \<Rightarrow> info \<Rightarrow> info" where
  "merged w i =
     (if entry_devices i = [] then i(''error'' \<mapsto> no_interface_error)
      else case decoded w i of Inr reading \<Rightarrow> i ++ reading | Inl e \<Rightarrow> i)"

definition decoder_calls :: "world \<Rightarrow> info \<Rightarrow> call list" where
  "decoder_calls w i =
     (if entry_devices i = [] then [] else snd (usbread_read w (last (entry_devices i))))"

text \<open>
  What the acquisition may do to a registry entry: nothing, or, for an entry with a known
  id and an empty list of candidate interfaces, set its key \<^verbatim>\<open>error\<close>.
\<close>

definition flagged :: "temper \<Rightarrow> info \<Rightarrow> bool" where
  "flagged t i = (known_entry t i \<and> i ''devices'' = Some (PList []))"



section \<open>Properties of the field decoder\<close>










section \<open>Properties of the firmware query\<close>










section \<open>Properties of the raw-HID decoder\<close>












section \<open>Properties of the serial decoder\<close>

lemma temp_inner_example:
  "re_search temp_inner ''Temp-Inner:21.50,45Temp-Outer:19.00'' = Some [''21.50'', ''45'']"
  by code_simp

lemma temp_outer_example:
  "re_search temp_outer ''Temp-Inner:21.50,45Temp-Outer:19.00'' = Some [''19.00'']"
  by code_simp

lemma py_float_21_50: "py_float ''21.50'' = Some (43 / 2)"
  by code_simp

lemma py_float_45: "py_float ''45'' = Some 45"
  by code_simp

lemma py_float_19_00: "py_float ''19.00'' = Some 19"
  by code_simp

lemma serial_info_example:
  "serial_info fw ''Temp-Inner:21.50,45Temp-Outer:19.00''
     = Inr [''firmware'' \<mapsto> PStr fw, ''internal temperature'' \<mapsto> PFloat (43 / 2),
            ''internal humidity'' \<mapsto> PFloat 45, ''external temperature'' \<mapsto> PFloat 19]"
  unfolding serial_info_def temp_inner_example temp_outer_example
  by (simp add: group_def py_float_21_50 py_float_45 py_float_19_00)

lemma serial_info_no_match:
  "re_search temp_inner reply = None \<Longrightarrow> re_search temp_outer reply = None \<Longrightarrow>
   serial_info fw reply = Inr [''firmware'' \<mapsto> PStr fw]"
  by (simp add: serial_info_def)

text \<open>
  C9: the reply "Temp-Inner:21.50,45Temp-Outer:19.00" yields internal temperature 21.5,
  internal humidity 45 and external temperature 19 beside the firmware id; and for every
  reply that neither pattern matches the result is the dictionary with the firmware id
  alone: no sensor field, no error field.
\<close>

theorem serial_info_replies:
  "serial_info fw ''Temp-Inner:21.50,45Temp-Outer:19.00''
     = Inr [''firmware'' \<mapsto> PStr fw, ''internal temperature'' \<mapsto> PFloat (43 / 2),
            ''internal humidity'' \<mapsto> PFloat 45, ''external temperature'' \<mapsto> PFloat 19]
   \<and> (re_search temp_inner reply = None \<and> re_search temp_outer reply = None \<longrightarrow>
        serial_info fw reply = Inr [''firmware'' \<mapsto> PStr fw])"
  using serial_info_example [of fw] serial_info_no_match [of reply fw] by blast

text \<open>C9 at a reply that neither pattern matches.\<close>

theorem serial_info_replies_witness:
  "re_search temp_inner ''ERROR: no sensor'' = None
   \<and> re_search temp_outer ''ERROR: no sensor'' = None
   \<and> serial_info ''TEMPerX232_V2.0'' ''ERROR: no sensor''
       = Inr [''firmware'' \<mapsto> PStr ''TEMPerX232_V2.0'']"
proof -
  have a: "re_search temp_inner ''ERROR: no sensor'' = None" by code_simp
  have b: "re_search temp_outer ''ERROR: no sensor'' = None" by code_simp
  from serial_info_replies [of "''TEMPerX232_V2.0''" "''ERROR: no sensor''"] a b
  show ?thesis by blast
qed

section \<open>Properties of the single-device handler\<close>

lemma scanner_entry_get_int:
  "scanner_entry i \<Longrightarrow> k \<in> set [''vendorid'', ''productid'', ''busnum'', ''devnum''] \<Longrightarrow>
   get_int i k = Inr (entry_int i k)"
  unfolding scanner_entry_def get_int_def entry_int_def
  by (auto split: option.splits pyval.splits)

lemma scanner_entry_get_list:
  "scanner_entry i \<Longrightarrow> get_list i ''devices'' = Inr (entry_devices i)"
  unfolding scanner_entry_def get_list_def entry_devices_def
  by (auto split: option.splits pyval.splits)






section \<open>Properties of the aggregate handler\<close>

lemma get_all_file_not_found:
  "maybe_reset w t = Inr t1 \<Longrightarrow> read_filtered cfg w t1 = (Inl FileNotFoundError, t2, calls) \<Longrightarrow>
   get_all cfg w t GET = (Inl (AttributeError ''force_reset''), t2, calls)"
  by (simp add: get_all_def force_reset_def)

text \<open>
  C1, on the code: a GET of \<^verbatim>\<open>/\<close> when the one known device has the interface
  \<^verbatim>\<open>hidraw0\<close> and opening it raises FileNotFoundError. The handler catches the
  exception and then evaluates \<^verbatim>\<open>self.force_reset()\<close>; \<^verbatim>\<open>Temper\<close> has no attribute
  of this name, so AttributeError leaves the handler: the registry is not scanned again,
  the acquisition is not retried (the one decoder call is that of the first attempt), and
  no reply is produced.
\<close>

theorem get_all_vanished_device:
  "''force_reset'' \<notin> set temper_attributes
   \<and> get_all example_config vanished
       (example_temper [(''/sys/bus/usb/devices/1-1'', example_entry [''hidraw0''])]) GET
     = (Inl (AttributeError ''force_reset''),
        example_temper [(''/sys/bus/usb/devices/1-1'', example_entry [''hidraw0''])],
        [ReadHidraw ''hidraw0''])"
proof -
  let ?t = "example_temper [(''/sys/bus/usb/devices/1-1'', example_entry [''hidraw0''])]"
  have m: "maybe_reset vanished ?t = Inr ?t"
    by (simp add: maybe_reset_def vanished_def example_temper_def)
  have s: "sorted_items (usb_devices ?t) = Inr (usb_devices ?t)"
    by (simp add: sorted_items_def order_key_def get_int_def example_entry_def
        example_temper_def)
  have u: "usbread_read vanished ''hidraw0'' = (Inl FileNotFoundError, [ReadHidraw ''hidraw0''])"
    by (simp add: usbread_read_def read_hidraw_def vanished_def)
  have se: "scanner_entry (example_entry [''hidraw0'']) \<and> known_entry ?t (example_entry [''hidraw0''])
      \<and> entry_devices (example_entry [''hidraw0'']) = [''hidraw0'']"
    by (simp add: scanner_entry_def known_entry_def entry_devices_def
        entry_int_def example_entry_def example_temper_def is_known_id_def)
  have "read_loop vanished (usb_devices ?t) ?t [] []
      = (Inl FileNotFoundError, ?t, [ReadHidraw ''hidraw0''])"
    using se
    by (simp add: example_temper_def scanner_entry_get_int scanner_entry_get_list
        known_entry_def py_index_def u)
  then have "read_filtered example_config vanished ?t
      = (Inl FileNotFoundError, ?t, [ReadHidraw ''hidraw0''])"
    by (simp add: read_filtered_def temper_read_def s)
  from get_all_file_not_found [OF m this]
  show ?thesis by (simp add: temper_attributes_def)
qed

section \<open>Properties of the scanner: attribute files\<close>

lemmas scan_eval = get_usb_devices_def get_usb_device_def readfile_def scandir_def is_dir_def
  strip_def isspace_def py_int_def digits_value_def digit_val_def SYSPATH_def path_join_def

lemma py_int_empty: "py_int [] base = None"
  by (simp add: py_int_def)

lemma get_usb_device_no_vendor: "readfile d ''idVendor'' = [] \<Longrightarrow> get_usb_device d = Inr None"
  by (simp add: get_usb_device_def)

lemma get_usb_device_no_product:
  "readfile d ''idVendor'' \<noteq> [] \<Longrightarrow> readfile d ''idProduct'' = [] \<Longrightarrow>
   get_usb_device d = Inl ValueError"
  by (simp add: get_usb_device_def py_int_empty split: option.splits)

lemma get_usb_device_no_busnum:
  "readfile d ''idVendor'' \<noteq> [] \<Longrightarrow> readfile d ''busnum'' = [] \<Longrightarrow>
   get_usb_device d = Inl ValueError"
  by (simp add: get_usb_device_def py_int_empty split: option.splits)

lemma get_usb_device_no_devnum:
  "readfile d ''idVendor'' \<noteq> [] \<Longrightarrow> readfile d ''devnum'' = [] \<Longrightarrow>
   get_usb_device d = Inl ValueError"
  by (simp add: get_usb_device_def py_int_empty split: option.splits)

lemma get_usb_devices_no_vendor:
  "get_usb_devices (Dir [(''1-1:1.0'', Dir [(''bInterfaceClass'', File ''03'')])]) = Inr []"
  by (simp add: scan_eval)

lemma get_usb_devices_no_manufacturer:
  "get_usb_devices
     (Dir [(''1-1'', Dir [(''idVendor'', File (''0c45'' @ [CHR 0x0A])),
                          (''idProduct'', File (''7401'' @ [CHR 0x0A])),
                          (''product'', Unreadable),
                          (''busnum'', File ''1''), (''devnum'', File ''2'')])])
   = Inr [(''/sys/bus/usb/devices/1-1'',
       [''vendorid'' \<mapsto> PInt 0x0c45, ''productid'' \<mapsto> PInt 0x7401,
        ''manufacturer'' \<mapsto> PStr [], ''product'' \<mapsto> PStr [],
        ''busnum'' \<mapsto> PInt 1, ''devnum'' \<mapsto> PInt 2, ''devices'' \<mapsto> PList []])]"
  by (simp add: scan_eval tty_pattern_def hidraw_pattern_def lits_def run_def)

text \<open>
  C8, on the code: a device directory whose \<^verbatim>\<open>idVendor\<close> reads "0c45" and that has no
  file \<^verbatim>\<open>idProduct\<close>, and one whose \<^verbatim>\<open>busnum\<close> cannot be read. \<^verbatim>\<open>_readfile\<close> turns
  the failure into the empty string, and \<^verbatim>\<open>int('', 16)\<close> and \<^verbatim>\<open>int('')\<close> raise
  ValueError, which nothing catches: the scan fails as a whole and no registry is built.
  (A missing \<^verbatim>\<open>idVendor\<close> is tested for the empty string before \<^verbatim>\<open>int\<close>, and a
  missing \<^verbatim>\<open>manufacturer\<close> or \<^verbatim>\<open>product\<close> is stored as the empty string, as the two
  lemmas above show.)
\<close>

theorem get_usb_devices_missing_attribute:
  "get_usb_devices
     (Dir [(''1-1'', Dir [(''idVendor'', File (''0c45'' @ [CHR 0x0A])),
                          (''manufacturer'', File ''RDing''),
                          (''product'', File ''TEMPerV1.4''),
                          (''busnum'', File ''1''), (''devnum'', File ''2'')])])
     = Inl ValueError
   \<and> get_usb_devices
     (Dir [(''1-1'', Dir [(''idVendor'', File (''0c45'' @ [CHR 0x0A])),
                          (''idProduct'', File (''7401'' @ [CHR 0x0A])),
                          (''busnum'', Unreadable), (''devnum'', File ''2'')])])
     = Inl ValueError"
  by (simp add: scan_eval)

section \<open>Properties of the scanner: candidate interfaces\<close>

lemma greedy_iff:
  "greedy k s lo hi \<noteq> None \<longleftrightarrow> (\<exists>n. lo \<le> n \<and> n \<le> hi \<and> k (drop n s) \<noteq> None)"
proof (induction hi)
  case 0
  then show ?case by auto
next
  case (Suc hi)
  show ?case
  proof (cases "Suc hi < lo")
    case True
    then show ?thesis by auto
  next
    case False
    show ?thesis
    proof (cases "k (drop (Suc hi) s)")
      case None
      have "(\<exists>n. lo \<le> n \<and> n \<le> Suc hi \<and> k (drop n s) \<noteq> None)
          \<longleftrightarrow> (\<exists>n. lo \<le> n \<and> n \<le> hi \<and> k (drop n s) \<noteq> None)"
        using None by (metis le_SucE le_SucI)
      with None False Suc.IH show ?thesis by simp
    next
      case (Some r)
      with False have "lo \<le> Suc hi \<and> Suc hi \<le> Suc hi \<and> k (drop (Suc hi) s) \<noteq> None"
        by simp
      then have "\<exists>n. lo \<le> n \<and> n \<le> Suc hi \<and> k (drop n s) \<noteq> None" by blast
      with Some False show ?thesis by simp
    qed
  qed
qed

lemma match_items_Item_iff:
  "match_items (Item c q g # its) s \<noteq> None \<longleftrightarrow>
     (\<exists>n. (case q of Once \<Rightarrow> 1 | Optional \<Rightarrow> 0 | Star \<Rightarrow> 0 | Plus \<Rightarrow> 1) \<le> n
         \<and> n \<le> (case q of Once \<Rightarrow> min 1 (run c s) | Optional \<Rightarrow> min 1 (run c s)
                   | Star \<Rightarrow> run c s | Plus \<Rightarrow> run c s)
         \<and> match_items its (drop n s) \<noteq> None)"
proof -
  have "match_items (Item c q g # its) s \<noteq> None \<longleftrightarrow>
      greedy (match_items its) s (case q of Once \<Rightarrow> 1 | Optional \<Rightarrow> 0 | Star \<Rightarrow> 0 | Plus \<Rightarrow> 1)
        (case q of Once \<Rightarrow> min 1 (run c s) | Optional \<Rightarrow> min 1 (run c s)
                   | Star \<Rightarrow> run c s | Plus \<Rightarrow> run c s) \<noteq> None"
    by (simp add: Let_def split: option.splits)
  then show ?thesis unfolding greedy_iff .
qed

lemma run_Cons: "run c (x # s) = (if cmatch c x then Suc (run c s) else 0)"
  by (simp add: run_def)

lemma run_Nil: "run c [] = 0"
  by (simp add: run_def)

lemma match_items_Once_iff:
  "match_items (Item c Once g # its) s \<noteq> None \<longleftrightarrow>
     (\<exists>x r. s = x # r \<and> cmatch c x \<and> match_items its r \<noteq> None)"
proof (cases s)
  case Nil
  then show ?thesis unfolding match_items_Item_iff by (simp add: run_Nil)
next
  case (Cons x r)
  have "(\<exists>n. 1 \<le> n \<and> n \<le> min 1 (run c (x # r)) \<and> match_items its (drop n (x # r)) \<noteq> None)
      \<longleftrightarrow> (cmatch c x \<and> match_items its r \<noteq> None)"
  proof
    assume "\<exists>n. 1 \<le> n \<and> n \<le> min 1 (run c (x # r)) \<and> match_items its (drop n (x # r)) \<noteq> None"
    then obtain n where n: "1 \<le> n" "n \<le> min 1 (run c (x # r))"
      "match_items its (drop n (x # r)) \<noteq> None" by blast
    then have "n = 1" by simp
    with n show "cmatch c x \<and> match_items its r \<noteq> None"
      by (auto simp: run_Cons split: if_splits)
  next
    assume "cmatch c x \<and> match_items its r \<noteq> None"
    then have "1 \<le> (1::nat) \<and> 1 \<le> min 1 (run c (x # r)) \<and> match_items its (drop 1 (x # r)) \<noteq> None"
      by (simp add: run_Cons)
    then show "\<exists>n. 1 \<le> n \<and> n \<le> min 1 (run c (x # r)) \<and> match_items its (drop n (x # r)) \<noteq> None"
      by blast
  qed
  with Cons show ?thesis unfolding match_items_Item_iff by simp
qed

lemma le_run_iff: "n \<le> run c s \<longleftrightarrow> n \<le> length s \<and> (\<forall>x \<in> set (take n s). cmatch c x)"
proof (induction s arbitrary: n)
  case Nil
  then show ?case by (simp add: run_Nil)
next
  case (Cons a s)
  then show ?case by (cases n) (auto simp: run_Cons)
qed

lemma match_items_Star_iff:
  "match_items (Item c Star g # its) s \<noteq> None \<longleftrightarrow>
     (\<exists>b r. s = b @ r \<and> (\<forall>x \<in> set b. cmatch c x) \<and> match_items its r \<noteq> None)"
proof
  assume "match_items (Item c Star g # its) s \<noteq> None"
  then obtain n where n: "n \<le> run c s" "match_items its (drop n s) \<noteq> None"
    unfolding match_items_Item_iff by auto
  then have "s = take n s @ drop n s \<and> (\<forall>x \<in> set (take n s). cmatch c x)"
    by (simp add: le_run_iff)
  with n show "\<exists>b r. s = b @ r \<and> (\<forall>x \<in> set b. cmatch c x) \<and> match_items its r \<noteq> None"
    by blast
next
  assume "\<exists>b r. s = b @ r \<and> (\<forall>x \<in> set b. cmatch c x) \<and> match_items its r \<noteq> None"
  then obtain b r where br: "s = b @ r" "\<forall>x \<in> set b. cmatch c x" "match_items its r \<noteq> None"
    by blast
  then have "length b \<le> run c s \<and> match_items its (drop (length b) s) \<noteq> None"
    by (simp add: le_run_iff)
  then show "match_items (Item c Star g # its) s \<noteq> None"
    unfolding match_items_Item_iff by auto
qed

lemma match_items_lits_iff:
  "match_items (lits l @ its) s \<noteq> None \<longleftrightarrow> (\<exists>r. s = l @ r \<and> match_items its r \<noteq> None)"
proof (induction l arbitrary: s)
  case Nil
  then show ?case by (simp add: lits_def)
next
  case (Cons a l)
  have "match_items (lits (a # l) @ its) s \<noteq> None
      \<longleftrightarrow> match_items (Item (Lit a) Once False # (lits l @ its)) s \<noteq> None"
    by (simp add: lits_def)
  also have "\<dots> \<longleftrightarrow> (\<exists>x r. s = x # r \<and> cmatch (Lit a) x \<and> match_items (lits l @ its) r \<noteq> None)"
    by (rule match_items_Once_iff)
  also have "\<dots> \<longleftrightarrow> (\<exists>r. s = (a # l) @ r \<and> match_items its r \<noteq> None)"
    using Cons.IH by auto
  finally show ?case .
qed

lemma re_search_iff:
  "re_search p s \<noteq> None \<longleftrightarrow> (\<exists>a r. s = a @ r \<and> match_items p r \<noteq> None)"
proof (induction s)
  case Nil
  then show ?case by simp
next
  case (Cons x s)
  show ?case
  proof (cases "match_items p (x # s)")
    case None
    have "(\<exists>a r. x # s = a @ r \<and> match_items p r \<noteq> None)
        \<longleftrightarrow> (\<exists>a r. s = a @ r \<and> match_items p r \<noteq> None)"
    proof
      assume "\<exists>a r. x # s = a @ r \<and> match_items p r \<noteq> None"
      then obtain a r where ar: "x # s = a @ r" "match_items p r \<noteq> None" by blast
      with None have "a \<noteq> []" by auto
      then obtain a' where "a = x # a'" using ar(1) by (cases a) auto
      with ar show "\<exists>a r. s = a @ r \<and> match_items p r \<noteq> None" by auto
    next
      assume "\<exists>a r. s = a @ r \<and> match_items p r \<noteq> None"
      then obtain a r where "s = a @ r" "match_items p r \<noteq> None" by blast
      then have "x # s = (x # a) @ r \<and> match_items p r \<noteq> None" by simp
      then show "\<exists>a r. x # s = a @ r \<and> match_items p r \<noteq> None" by blast
    qed
    with None Cons.IH show ?thesis by simp
  next
    case (Some m)
    then have "x # s = [] @ (x # s) \<and> match_items p (x # s) \<noteq> None" by simp
    then have "\<exists>a r. x # s = a @ r \<and> match_items p r \<noteq> None" by blast
    with Some show ?thesis by (auto split: prod.splits)
  qed
qed

lemma tty_pattern_iff: "re_search tty_pattern name \<noteq> None \<longleftrightarrow> tty_shape name"
proof -
  have "re_search tty_pattern name \<noteq> None \<longleftrightarrow>
      (\<exists>a r. name = a @ r \<and>
         (\<exists>r2. r = ''tty'' @ r2 \<and>
            (\<exists>b r3. r2 = b @ r3 \<and> (\<forall>x \<in> set b. cmatch AnyChar x) \<and>
               (\<exists>d c. r3 = d # c \<and> cmatch Digit d \<and> match_items [] c \<noteq> None))))"
    unfolding re_search_iff tty_pattern_def match_items_lits_iff match_items_Star_iff
      match_items_Once_iff ..
  also have "\<dots> \<longleftrightarrow> tty_shape name"
    unfolding tty_shape_def by (simp only: cmatch.simps match_items.simps) (auto; blast)
  finally show ?thesis .
qed

lemma hidraw_pattern_iff: "re_search hidraw_pattern name \<noteq> None \<longleftrightarrow> hidraw_shape name"
proof -
  have "re_search hidraw_pattern name \<noteq> None \<longleftrightarrow>
      (\<exists>a r. name = a @ r \<and>
         (\<exists>r2. r = ''hidraw'' @ r2 \<and>
               (\<exists>d c. r2 = d # c \<and> cmatch Digit d \<and> match_items [] c \<noteq> None)))"
    unfolding re_search_iff hidraw_pattern_def match_items_lits_iff match_items_Once_iff ..
  also have "\<dots> \<longleftrightarrow> hidraw_shape name"
    unfolding hidraw_shape_def by (simp only: cmatch.simps match_items.simps) (auto; blast)
  finally show ?thesis .
qed

lemma find_devices_eq:
  "find_devices es = {n \<in> subtree_names es. tty_shape n \<or> hidraw_shape n}"
proof (induction es rule: find_devices.induct)
  case 1
  then show ?case by simp
next
  case (2 name n es)
  have sub: "(case n of Dir sub \<Rightarrow> find_devices sub | _ \<Rightarrow> {})
      = {m \<in> (case n of Dir sub \<Rightarrow> subtree_names sub | _ \<Rightarrow> {}). tty_shape m \<or> hidraw_shape m}"
    using "2.IH"(1) by (cases n) auto
  have "find_devices ((name, n) # es)
      = (case n of Dir sub \<Rightarrow> find_devices sub | _ \<Rightarrow> {})
        \<union> (if tty_shape name then {name} else {})
        \<union> (if hidraw_shape name then {name} else {})
        \<union> find_devices es"
    by (simp only: find_devices.simps tty_pattern_iff hidraw_pattern_iff)
  also have "\<dots>
      = {m \<in> (case n of Dir sub \<Rightarrow> subtree_names sub | _ \<Rightarrow> {}). tty_shape m \<or> hidraw_shape m}
        \<union> (if tty_shape name then {name} else {})
        \<union> (if hidraw_shape name then {name} else {})
        \<union> {m \<in> subtree_names es. tty_shape m \<or> hidraw_shape m}"
    by (simp only: sub "2.IH"(2))
  also have "\<dots> = {m \<in> subtree_names ((name, n) # es). tty_shape m \<or> hidraw_shape m}"
    by auto
  finally show ?case .
qed

lemma finite_subtree_names: "finite (subtree_names es)"
proof (induction es rule: subtree_names.induct)
  case 1
  then show ?case by simp
next
  case (2 name n es)
  then show ?case by (cases n) auto
qed

lemma finite_find_devices: "finite (find_devices es)"
  unfolding find_devices_eq using finite_subtree_names by simp

lemma get_usb_device_devices:
  "get_usb_device d = Inr (Some info) \<Longrightarrow>
   info ''devices'' = Some (PList (sorted_list_of_set (find_devices (scandir d))))"
  by (auto simp add: get_usb_device_def Let_def split: if_splits option.splits)

lemma word_digits_split:
  assumes "word_digits word n"
  shows "\<exists>d c. n = word @ d # c \<and> cmatch Digit d"
proof -
  from assms have t: "take (length word) n = word" and ne: "drop (length word) n \<noteq> []"
    and dg: "list_all (cmatch Digit) (drop (length word) n)"
    by (simp_all add: word_digits_def)
  from ne obtain d c where dc: "drop (length word) n = d # c"
    by (cases "drop (length word) n") auto
  have "n = take (length word) n @ drop (length word) n" by simp
  with t dc have "n = word @ d # c" by simp
  moreover from dg dc have "cmatch Digit d" by simp
  ultimately show ?thesis by blast
qed

lemma word_digits_tty: "word_digits ''tty'' n \<Longrightarrow> tty_shape n"
proof -
  assume "word_digits ''tty'' n"
  then obtain d c where "n = ''tty'' @ d # c" "cmatch Digit d"
    using word_digits_split by blast
  then have "n = [] @ ''tty'' @ [] @ d # c \<and> CHR 0x0A \<notin> set [] \<and> cmatch Digit d"
    by simp
  then show ?thesis unfolding tty_shape_def by blast
qed

lemma word_digits_hidraw: "word_digits ''hidraw'' n \<Longrightarrow> hidraw_shape n"
proof -
  assume "word_digits ''hidraw'' n"
  then obtain d c where "n = ''hidraw'' @ d # c" "cmatch Digit d"
    using word_digits_split by blast
  then have "n = [] @ ''hidraw'' @ d # c \<and> cmatch Digit d"
    by simp
  then show ?thesis unfolding hidraw_shape_def by blast
qed

text \<open>
  C7, as stated, at a device directory with the entry \<^verbatim>\<open>ttyUSB0\<close>: the name is
  collected, and it is neither "tty" followed by digits nor "hidraw" followed by digits.
\<close>

theorem find_devices_ttyUSB0_counterexample:
  "''ttyUSB0'' \<in> find_devices [(''1-1:1.0'', Dir [(''ttyUSB0'', Dir [(''tty'', Dir [])])])]
   \<and> \<not> word_digits ''tty'' ''ttyUSB0'' \<and> \<not> word_digits ''hidraw'' ''ttyUSB0''"
  by (simp add: tty_pattern_def hidraw_pattern_def lits_def run_def word_digits_def)

text \<open>
  C7, amended: for every scanned device directory that yields a registry entry, the
  candidate interfaces recorded for it are exactly the deduplicated, sorted list of the
  entry names found anywhere in the directory's subtree (descending into directories that
  are not symbolic links) that contain "tty" followed, after any characters but a newline,
  by a digit, or contain "hidraw" directly followed by a digit; in particular every name
  that is "tty" followed by digits or "hidraw" followed by digits is among them, and no
  name without one of the two shapes is.
\<close>

theorem get_usb_device_candidates:
  "(get_usb_device d = Inr (Some info) \<longrightarrow>
      (\<exists>l. info ''devices'' = Some (PList l) \<and> sorted l \<and> distinct l
           \<and> set l = {n \<in> subtree_names (scandir d). tty_shape n \<or> hidraw_shape n}))
   \<and> (word_digits ''tty'' n \<longrightarrow> tty_shape n)
   \<and> (word_digits ''hidraw'' n \<longrightarrow> hidraw_shape n)"
proof -
  have "get_usb_device d = Inr (Some info) \<longrightarrow>
      (\<exists>l. info ''devices'' = Some (PList l) \<and> sorted l \<and> distinct l
           \<and> set l = {n \<in> subtree_names (scandir d). tty_shape n \<or> hidraw_shape n})"
  proof
    assume "get_usb_device d = Inr (Some info)"
    then have "info ''devices'' = Some (PList (sorted_list_of_set (find_devices (scandir d))))"
      by (rule get_usb_device_devices)
    moreover have "set (sorted_list_of_set (find_devices (scandir d)))
        = {n \<in> subtree_names (scandir d). tty_shape n \<or> hidraw_shape n}"
      using finite_find_devices [of "scandir d"] by (simp add: find_devices_eq)
    ultimately show "\<exists>l. info ''devices'' = Some (PList l) \<and> sorted l \<and> distinct l
           \<and> set l = {n \<in> subtree_names (scandir d). tty_shape n \<or> hidraw_shape n}"
      by simp
  qed
  with word_digits_tty [of n] word_digits_hidraw [of n] show ?thesis by blast
qed
text \<open>
  The amended C7 at a device directory with a serial and a raw-HID interface, and at the
  names \<^verbatim>\<open>tty0\<close> and \<^verbatim>\<open>hidraw12\<close>.
\<close>

theorem get_usb_device_candidates_witness:
  "get_usb_device
     (Dir [(''idVendor'', File ''0c45''), (''idProduct'', File ''7401''),
           (''busnum'', File ''1''), (''devnum'', File ''2''),
           (''1-1:1.0'', Dir [(''ttyUSB0'', Dir []), (''hidraw0'', Link (Dir []))])])
     = Inr (Some
        [''vendorid'' \<mapsto> PInt 0x0c45, ''productid'' \<mapsto> PInt 0x7401,
         ''manufacturer'' \<mapsto> PStr [], ''product'' \<mapsto> PStr [],
         ''busnum'' \<mapsto> PInt 1, ''devnum'' \<mapsto> PInt 2,
         ''devices'' \<mapsto> PList [''hidraw0'', ''ttyUSB0'']])
   \<and> set [''hidraw0'', ''ttyUSB0'']
       = {n \<in> subtree_names
            [(''idVendor'', File ''0c45''), (''idProduct'', File ''7401''),
             (''busnum'', File ''1''), (''devnum'', File ''2''),
             (''1-1:1.0'', Dir [(''ttyUSB0'', Dir []), (''hidraw0'', Link (Dir []))])].
          tty_shape n \<or> hidraw_shape n}
   \<and> word_digits ''tty'' ''tty0'' \<and> tty_shape ''tty0''
   \<and> word_digits ''hidraw'' ''hidraw12'' \<and> hidraw_shape ''hidraw12''"
proof -
  let ?d = "Dir [(''idVendor'', File ''0c45''), (''idProduct'', File ''7401''),
           (''busnum'', File ''1''), (''devnum'', File ''2''),
           (''1-1:1.0'', Dir [(''ttyUSB0'', Dir []), (''hidraw0'', Link (Dir []))])]"
  let ?i = "[''vendorid'' \<mapsto> PInt 0x0c45, ''productid'' \<mapsto> PInt 0x7401,
         ''manufacturer'' \<mapsto> PStr [], ''product'' \<mapsto> PStr [],
         ''busnum'' \<mapsto> PInt 1, ''devnum'' \<mapsto> PInt 2,
         ''devices'' \<mapsto> PList [''hidraw0'', ''ttyUSB0'']]"
  have h: "get_usb_device ?d = Inr (Some ?i)"
    by (simp add: scan_eval tty_pattern_def hidraw_pattern_def lits_def run_def)
  have t: "word_digits ''tty'' ''tty0''" and r: "word_digits ''hidraw'' ''hidraw12''"
    by (simp_all add: word_digits_def)
  have sc: "scandir ?d = [(''idVendor'', File ''0c45''), (''idProduct'', File ''7401''),
             (''busnum'', File ''1''), (''devnum'', File ''2''),
             (''1-1:1.0'', Dir [(''ttyUSB0'', Dir []), (''hidraw0'', Link (Dir []))])]"
    by (simp add: scandir_def)
  from get_usb_device_candidates [of ?d ?i "''tty0''"] h t
  have "set [''hidraw0'', ''ttyUSB0'']
       = {n \<in> subtree_names (scandir ?d). tty_shape n \<or> hidraw_shape n}"
    and "tty_shape ''tty0''"
    by auto
  moreover from get_usb_device_candidates [of ?d ?i "''hidraw12''"] r
  have "hidraw_shape ''hidraw12''" by blast
  ultimately show ?thesis unfolding sc using h t r by blast
qed

section \<open>Properties of the acquisition: the registry\<close>

lemma known_entry_usb_devices [simp]: "known_entry (t\<lparr>usb_devices := r\<rparr>) i = known_entry t i"
  by (simp add: known_entry_def is_known_id_def)

lemma flagged_usb_devices [simp]: "flagged (t\<lparr>usb_devices := r\<rparr>) i = flagged t i"
  by (simp add: flagged_def)

lemma is_known_id_usb_devices [simp]:
  "is_known_id (t\<lparr>usb_devices := r\<rparr>) v p = is_known_id t v p"
  by (simp add: is_known_id_def)




















end
